theory Spec2Isabelle
  imports Complex_Main "HOL-Library.Sublist"
begin

section \<open>The OpenRouter engine of textgrad (\<^verbatim>\<open>textgrad/engine/deepseek.py\<close>)\<close>

text \<open>
  The module defines one class, \<^verbatim>\<open>DeepSeekOpenRouterEngine\<close>, with a constructor and a
  method \<^verbatim>\<open>generate\<close> that is wrapped by tenacity's \<^verbatim>\<open>retry\<close> decorator. The
  embedding threads an explicit \<open>world\<close> (the cache store, the log of HTTP requests
  sent, the log of sleeps) through both, returns every exception as the left
  summand of a sum, and takes the external collaborators (the process environment, the
  HTTP transport, the random source) from a record \<open>env\<close>.
\<close>

subsection \<open>Python values\<close>

text \<open>
  The values that occur in the keyword parameters, in the request payload and in a
  decoded JSON body. A \<^verbatim>\<open>dict\<close> nested in a value is an association list read with
  \<open>map_of\<close>; the dictionaries the class itself builds (headers, default parameters,
  payload) are maps.
\<close>

datatype pyval =
    PNone
  | PBool bool
  | PInt int
  | PFloat real
  | PStr string
  | PList "pyval list"
  | PDict "(string \<times> pyval) list"

subsection \<open>HTTP responses and exceptions\<close>

text \<open>
  A \<^verbatim>\<open>requests.Response\<close>: \<open>json_body\<close> is what \<^verbatim>\<open>response.json()\<close> does, \<open>Inr\<close> the
  decoded value or \<open>Inl\<close> the message of the \<^verbatim>\<open>requests.exceptions.JSONDecodeError\<close>
  it raises.
\<close>

record response =
  status_code :: nat
  reason :: string
  resp_url :: string
  resp_text :: string
  json_body :: "string + pyval"

text \<open>
  The exception classes that can leave the code. \<open>RequestException m r\<close> stands for
  \<^verbatim>\<open>requests.exceptions.RequestException\<close> and its subclasses, with \<open>m\<close> its \<^verbatim>\<open>str\<close> and
  \<open>r\<close> its \<^verbatim>\<open>response\<close> attribute (\<^verbatim>\<open>None\<close> when the exception was built without one).
  \<open>RetryError i e\<close> is \<^verbatim>\<open>tenacity.RetryError\<close>: its \<^verbatim>\<open>last_attempt\<close> is a
  \<^verbatim>\<open>Future\<close> with \<^verbatim>\<open>id\<close> \<open>i\<close> that holds the exception \<open>e\<close> of the last attempt.
\<close>

datatype exn =
    ValueError string
  | RuntimeError string
  | KeyError pyval
  | IndexError
  | TypeError
  | RequestException string "response option"
  | RetryError nat exn

fun class_name :: "exn \<Rightarrow> string" where
  "class_name (ValueError _) = ''ValueError''"
| "class_name (RuntimeError _) = ''RuntimeError''"
| "class_name (KeyError _) = ''KeyError''"
| "class_name IndexError = ''IndexError''"
| "class_name TypeError = ''TypeError''"
| "class_name (RequestException _ _) = ''RequestException''"
| "class_name (RetryError _ _) = ''RetryError''"

subsection \<open>Printing integers\<close>

definition digit_char :: "nat \<Rightarrow> char" where
  "digit_char d = ''0123456789abcdef'' ! d"

text \<open>\<^verbatim>\<open>str(n)\<close> of a non-negative \<^verbatim>\<open>int\<close>, and the digits of \<^verbatim>\<open>'%x' % n\<close>.\<close>

function str_nat :: "nat \<Rightarrow> string" where
  "str_nat n = (if n < 10 then [digit_char n] else str_nat (n div 10) @ [digit_char (n mod 10)])"
  by pat_completeness auto
termination
  by (relation "measure (\<lambda>n. n)") auto

function hex_nat :: "nat \<Rightarrow> string" where
  "hex_nat n = (if n < 16 then [digit_char n] else hex_nat (n div 16) @ [digit_char (n mod 16)])"
  by pat_completeness auto
termination
  by (relation "measure (\<lambda>n. n)") auto

declare str_nat.simps [simp del] hex_nat.simps [simp del]

subsection \<open>The requests library: status check and truth value of a response\<close>

text \<open>
  \<^verbatim>\<open>Response.raise_for_status\<close> raises \<^verbatim>\<open>HTTPError(msg, response=self)\<close> for a status
  in 400..599 and returns otherwise; \<^verbatim>\<open>Response.ok\<close> is whether it returns, and
  \<^verbatim>\<open>Response.__bool__\<close> is \<^verbatim>\<open>ok\<close>.
\<close>

definition raise_for_status :: "response \<Rightarrow> exn option" where
  "raise_for_status r =
     (if 400 \<le> status_code r \<and> status_code r < 500 then
        Some (RequestException
          (str_nat (status_code r) @ '' Client Error: '' @ reason r @ '' for url: '' @ resp_url r)
          (Some r))
      else if 500 \<le> status_code r \<and> status_code r < 600 then
        Some (RequestException
          (str_nat (status_code r) @ '' Server Error: '' @ reason r @ '' for url: '' @ resp_url r)
          (Some r))
      else None)"

definition ok :: "response \<Rightarrow> bool" where
  "ok r = (raise_for_status r = None)"

subsection \<open>Subscripting a decoded JSON value\<close>

text \<open>
  \<^verbatim>\<open>obj[key]\<close> for a string key and \<^verbatim>\<open>obj[0]\<close>, on the values \<^verbatim>\<open>json.loads\<close> can
  produce: a missing key is a \<^verbatim>\<open>KeyError\<close>, an empty sequence an \<^verbatim>\<open>IndexError\<close>, and
  a value of the wrong type a \<^verbatim>\<open>TypeError\<close>. The keys of a decoded JSON object are
  strings, so \<^verbatim>\<open>obj[0]\<close> on a \<^verbatim>\<open>dict\<close> is a \<^verbatim>\<open>KeyError\<close>.
\<close>

fun getitem_str :: "pyval \<Rightarrow> string \<Rightarrow> exn + pyval" where
  "getitem_str (PDict kvs) k =
     (case map_of kvs k of None \<Rightarrow> Inl (KeyError (PStr k)) | Some v \<Rightarrow> Inr v)"
| "getitem_str _ k = Inl TypeError"

fun getitem_0 :: "pyval \<Rightarrow> exn + pyval" where
  "getitem_0 (PList []) = Inl IndexError"
| "getitem_0 (PList (x # _)) = Inr x"
| "getitem_0 (PStr []) = Inl IndexError"
| "getitem_0 (PStr (c # _)) = Inr (PStr [c])"
| "getitem_0 (PDict _) = Inl (KeyError (PInt 0))"
| "getitem_0 _ = Inl TypeError"

text \<open>Line 103: \<^verbatim>\<open>result["choices"][0]["message"]["content"]\<close>, left to right.\<close>

definition generated_text_of :: "pyval \<Rightarrow> exn + pyval" where
  "generated_text_of result =
     (case getitem_str result ''choices'' of
        Inl e \<Rightarrow> Inl e
      | Inr choices \<Rightarrow>
          (case getitem_0 choices of
             Inl e \<Rightarrow> Inl e
           | Inr choice \<Rightarrow>
               (case getitem_str choice ''message'' of
                  Inl e \<Rightarrow> Inl e
                | Inr message \<Rightarrow> getitem_str message ''content'')))"

subsection \<open>Requests, collaborators and the world\<close>

record request =
  req_method :: string
  req_url :: string
  req_headers :: "string \<rightharpoonup> string"
  req_json :: "string \<rightharpoonup> pyval"
  req_timeout :: nat

datatype post_result = PostRaises exn | PostReturns response

text \<open>
  The collaborators: \<open>environ\<close> is \<^verbatim>\<open>os.environ\<close>, \<open>user_cache_dir\<close> is
  \<^verbatim>\<open>platformdirs.user_cache_dir\<close>, \<open>transport i req\<close> is what the \<open>i\<close>-th call of
  \<^verbatim>\<open>requests.post\<close> (counting from 0) does with the request \<open>req\<close>, \<open>rand k\<close> is the
  value in \<open>[0, 1)\<close> that \<^verbatim>\<open>random.random()\<close> yields for the wait after attempt \<open>k\<close>,
  and \<open>future_id\<close> is the \<^verbatim>\<open>id\<close> of the \<^verbatim>\<open>Future\<close> of the last attempt.
\<close>

record env =
  environ :: "string \<rightharpoonup> string"
  user_cache_dir :: "string \<Rightarrow> string"
  transport :: "nat \<Rightarrow> request \<Rightarrow> post_result"
  rand :: "nat \<Rightarrow> real"
  future_id :: nat

text \<open>
  The state outside the engine object: the content of the engine's cache store, the
  paths of the cache stores opened so far, the requests sent so far and the durations
  slept so far (both in order).
\<close>

record world =
  cache :: "string \<rightharpoonup> pyval"
  cache_opens :: "string list"
  sent :: "request list"
  slept :: "real list"

record engine =
  cache_path :: string
  model_string :: string
  system_prompt :: string
  api_key :: string
  base_url :: string
  headers :: "string \<rightharpoonup> string"
  default_params :: "string \<rightharpoonup> pyval"

subsection \<open>The cache of the base class\<close>

text \<open>
  The engine inherits its cache from \<^verbatim>\<open>CachedEngine\<close> in \<^verbatim>\<open>textgrad/engine/base.py\<close>,
  which is not among the sources; the three methods the engine calls are taken from the
  specification.
\<close>

text \<open>
  Modelled from the spec: \<^verbatim>\<open>CachedEngine.__init__(cache_path)\<close>. Construction has the
  side effect that it opens or creates the on-disk cache store at the derived path.
\<close>

definition CachedEngine_init :: "string \<Rightarrow> world \<Rightarrow> world" where
  "CachedEngine_init path w = w\<lparr>cache_opens := cache_opens w @ [path]\<rparr>"

text \<open>
  Modelled from the spec: \<^verbatim>\<open>CachedEngine._check_cache(key)\<close>. The cache store is a
  persistent key-to-value mapping with \<open>get(key)\<close> returning an optional value; in
  Python the absent value is \<^verbatim>\<open>None\<close>.
\<close>

definition check_cache :: "world \<Rightarrow> string \<Rightarrow> pyval" where
  "check_cache w key = (case cache w key of None \<Rightarrow> PNone | Some v \<Rightarrow> v)"

text \<open>
  Modelled from the spec: \<^verbatim>\<open>CachedEngine._save_cache(key, value)\<close>, the \<open>put(key, value)\<close>
  of the cache store.
\<close>

definition save_cache :: "string \<Rightarrow> pyval \<Rightarrow> world \<Rightarrow> world" where
  "save_cache key v w = w\<lparr>cache := (cache w)(key \<mapsto> v)\<rparr>"

subsection \<open>The constructor\<close>

definition DEFAULT_SYSTEM_PROMPT :: string where
  "DEFAULT_SYSTEM_PROMPT = ''You are a helpful, creative, and smart assistant.''"

definition DEFAULT_MODEL_STRING :: string where
  "DEFAULT_MODEL_STRING = ''deepseek/deepseek-chat-v3-0324:free''"

text \<open>\<^verbatim>\<open>s.replace('/', '_')\<close> and \<^verbatim>\<open>os.path.join\<close> (POSIX) on two components.\<close>

definition replace_slash :: "string \<Rightarrow> string" where
  "replace_slash s = map (\<lambda>c. if c = CHR ''/'' then CHR ''_'' else c) s"

definition path_join :: "string \<Rightarrow> string \<Rightarrow> string" where
  "path_join a b =
     (if b \<noteq> [] \<and> hd b = CHR ''/'' then b
      else if a = [] \<or> last a = CHR ''/'' then a @ b
      else a @ ''/'' @ b)"

text \<open>
  \<^verbatim>\<open>x or y\<close> where \<open>x\<close> is a string or \<^verbatim>\<open>None\<close>: \<^verbatim>\<open>None\<close> and the empty string are
  false, so \<open>y\<close> is the value then. \<open>or_else\<close> is for a string \<open>y\<close>, \<open>or_opt\<close> for a
  \<open>y\<close> that may be \<^verbatim>\<open>None\<close> itself (the result of \<^verbatim>\<open>os.getenv\<close>).
\<close>

definition or_else :: "string option \<Rightarrow> string \<Rightarrow> string" where
  "or_else x y = (case x of None \<Rightarrow> y | Some s \<Rightarrow> if s = [] then y else s)"

definition or_opt :: "string option \<Rightarrow> string option \<Rightarrow> string option" where
  "or_opt x y = (case x of None \<Rightarrow> y | Some s \<Rightarrow> if s = [] then y else Some s)"

text \<open>\<^verbatim>\<open>kwargs.get(key, default)\<close>.\<close>

definition dict_get :: "(string \<rightharpoonup> pyval) \<Rightarrow> string \<Rightarrow> pyval \<Rightarrow> pyval" where
  "dict_get d k dflt = (case d k of None \<Rightarrow> dflt | Some v \<Rightarrow> v)"

text \<open>
  \<^verbatim>\<open>__init__\<close>, lines 34 to 62. An omitted \<^verbatim>\<open>model_string\<close> or \<^verbatim>\<open>system_prompt\<close> is
  \<open>None\<close> and takes the default of the signature. Line 42 is
  \<^verbatim>\<open>api_key or os.getenv("OPENROUTER_API_KEY")\<close>, and line 43 rejects \<^verbatim>\<open>None\<close> and the
  empty string.
\<close>

definition init ::
  "env \<Rightarrow> string option \<Rightarrow> string option \<Rightarrow> string option \<Rightarrow> string option \<Rightarrow>
   string option \<Rightarrow> (string \<rightharpoonup> pyval) \<Rightarrow> world \<Rightarrow> (exn + engine) \<times> world" where
  "init ev model_string_arg system_prompt_arg api_key_arg site_url site_name kwargs w =
     (let model = (case model_string_arg of None \<Rightarrow> DEFAULT_MODEL_STRING | Some m \<Rightarrow> m);
          sys = (case system_prompt_arg of None \<Rightarrow> DEFAULT_SYSTEM_PROMPT | Some s \<Rightarrow> s);
          root = user_cache_dir ev ''textgrad'';
          path = path_join root (''cache_deepseek_'' @ replace_slash model @ ''.db'');
          w1 = CachedEngine_init path w;
          key = or_opt api_key_arg (environ ev ''OPENROUTER_API_KEY'');
          missing = ValueError (''OpenRouter API key is required. '' @
            ''Please provide api_key parameter or set OPENROUTER_API_KEY environment variable.'')
      in case key of
           None \<Rightarrow> (Inl missing, w1)
         | Some k \<Rightarrow>
             if k = [] then (Inl missing, w1)
             else
               (Inr \<lparr>cache_path = path,
                     model_string = model,
                     system_prompt = sys,
                     api_key = k,
                     base_url = ''https://openrouter.ai/api/v1'',
                     headers = [''Authorization'' \<mapsto> ''Bearer '' @ k,
                                ''Content-Type'' \<mapsto> ''application/json'',
                                ''HTTP-Referer'' \<mapsto> or_else site_url ''https://example.com'',
                                ''X-Title'' \<mapsto> or_else site_name ''TextGrad App''],
                     default_params =
                       [''temperature'' \<mapsto> dict_get kwargs ''temperature'' (PFloat 0.7),
                        ''max_tokens'' \<mapsto> dict_get kwargs ''max_tokens'' (PInt 1024),
                        ''top_p'' \<mapsto> dict_get kwargs ''top_p'' (PFloat 1.0)]\<rparr>,
                w1))"

subsection \<open>One attempt of generate\<close>

text \<open>
  The payload of lines 83 to 91: a dictionary display whose later entries replace
  earlier ones with the same key, so \<^verbatim>\<open>**self.default_params\<close> and then \<^verbatim>\<open>**kwargs\<close>
  override what stands before them.
\<close>

definition payload_of ::
  "engine \<Rightarrow> string \<Rightarrow> string \<Rightarrow> (string \<rightharpoonup> pyval) \<Rightarrow> (string \<rightharpoonup> pyval)" where
  "payload_of self sys_prompt prompt kwargs =
     [''model'' \<mapsto> PStr (model_string self),
      ''messages'' \<mapsto>
        PList [PDict [(''role'', PStr ''system''), (''content'', PStr sys_prompt)],
               PDict [(''role'', PStr ''user''), (''content'', PStr prompt)]]]
     ++ default_params self ++ kwargs"

text \<open>The call of \<^verbatim>\<open>requests.post\<close>, lines 94 to 99.\<close>

definition post_request :: "engine \<Rightarrow> (string \<rightharpoonup> pyval) \<Rightarrow> request" where
  "post_request self payload =
     \<lparr>req_method = ''POST'',
      req_url = base_url self @ ''/chat/completions'',
      req_headers = headers self,
      req_json = payload,
      req_timeout = 30\<rparr>"

text \<open>
  The \<^verbatim>\<open>try\<close> block, lines 94 to 107. The request is logged, the transport
  answers, and the first exception ends the block.
\<close>

definition try_block ::
  "env \<Rightarrow> engine \<Rightarrow> string \<Rightarrow> (string \<rightharpoonup> pyval) \<Rightarrow> world \<Rightarrow> (exn + pyval) \<times> world" where
  "try_block ev self cache_key payload w =
     (let req = post_request self payload;
          w1 = w\<lparr>sent := sent w @ [req]\<rparr>
      in case transport ev (length (sent w)) req of
           PostRaises e \<Rightarrow> (Inl e, w1)
         | PostReturns r \<Rightarrow>
             (case raise_for_status r of
                Some e \<Rightarrow> (Inl e, w1)
              | None \<Rightarrow>
                  (case json_body r of
                     Inl m \<Rightarrow> (Inl (RequestException m None), w1)
                   | Inr result \<Rightarrow>
                       (case generated_text_of result of
                          Inl e \<Rightarrow> (Inl e, w1)
                        | Inr generated_text \<Rightarrow>
                            (Inr generated_text, save_cache cache_key generated_text w1)))))"

text \<open>
  The \<^verbatim>\<open>except\<close> clause, lines 109 to 113: a \<^verbatim>\<open>RequestException\<close> becomes a
  \<^verbatim>\<open>RuntimeError\<close>, any other exception passes. \<^verbatim>\<open>hasattr(e, 'response')\<close> holds for
  every \<^verbatim>\<open>RequestException\<close>, and \<^verbatim>\<open>e.response\<close> is true when it is a response whose
  \<^verbatim>\<open>__bool__\<close> is true.
\<close>

definition except_clause :: "exn \<Rightarrow> exn" where
  "except_clause e =
     (case e of
        RequestException m resp \<Rightarrow>
          RuntimeError
            (''DeepSeek API Error: '' @ m @
             (case resp of
                None \<Rightarrow> []
              | Some r \<Rightarrow>
                  if ok r then
                    '' | Status: '' @ str_nat (status_code r) @ '' | Response: '' @ resp_text r
                  else []))
      | _ \<Rightarrow> e)"

text \<open>
  The body of \<^verbatim>\<open>generate\<close>, lines 74 to 113. An omitted \<^verbatim>\<open>system_prompt\<close> is \<open>None\<close>;
  line 74 is \<^verbatim>\<open>system_prompt or self.system_prompt\<close>.
\<close>

definition generate_body ::
  "env \<Rightarrow> engine \<Rightarrow> string \<Rightarrow> string option \<Rightarrow> (string \<rightharpoonup> pyval) \<Rightarrow> world \<Rightarrow>
   (exn + pyval) \<times> world" where
  "generate_body ev self prompt system_prompt_arg kwargs w =
     (let sys_prompt = or_else system_prompt_arg (system_prompt self);
          cache_key = sys_prompt @ prompt;
          cached_response = check_cache w cache_key
      in if cached_response \<noteq> PNone then (Inr cached_response, w)
         else
           (case try_block ev self cache_key (payload_of self sys_prompt prompt kwargs) w of
              (Inl e, w') \<Rightarrow> (Inl (except_clause e), w')
            | (Inr generated_text, w') \<Rightarrow> (Inr generated_text, w')))"

subsection \<open>The retry decorator\<close>

text \<open>
  Line 64 wraps \<^verbatim>\<open>generate\<close> in tenacity's \<^verbatim>\<open>retry\<close> with
  \<^verbatim>\<open>wait_random_exponential(min=1, max=5)\<close> and \<^verbatim>\<open>stop_after_attempt(5)\<close>; the other
  settings keep their defaults (retry on every exception, \<^verbatim>\<open>reraise=False\<close>). tenacity
  is a library outside the repository, modelled here as its current releases behave:
  \<^item> \<^verbatim>\<open>stop_after_attempt(n)\<close> stops when the attempt number has reached \<open>n\<close>;
  \<^item> \<^verbatim>\<open>wait_exponential\<close> yields \<^verbatim>\<open>max(max(0, min), min(multiplier * 2 ** (k - 1), max))\<close>
    after attempt \<open>k\<close>, and \<^verbatim>\<open>wait_random_exponential\<close> draws
    \<^verbatim>\<open>random.uniform(min, high)\<close> below that value, which is
    \<^verbatim>\<open>min + (high - min) * random.random()\<close> (releases up to 8.2.3 drew from
    \<^verbatim>\<open>random.uniform(0, high)\<close> instead, with no lower bound but 0);
  \<^item> the loop calls the function, returns its result, and after an exception either
    raises \<^verbatim>\<open>RetryError(last_attempt)\<close> when the stop condition holds, or sleeps and
    calls the function again with the same arguments.
\<close>

definition stop_after_attempt :: "nat \<Rightarrow> nat \<Rightarrow> bool" where
  "stop_after_attempt max_attempt_number attempt_number = (attempt_number \<ge> max_attempt_number)"

definition wait_exponential :: "real \<Rightarrow> real \<Rightarrow> nat \<Rightarrow> real" where
  "wait_exponential mn mx attempt_number =
     max (max 0 mn) (min (1 * 2 ^ (attempt_number - 1)) mx)"

definition wait_random_exponential :: "real \<Rightarrow> real \<Rightarrow> real \<Rightarrow> nat \<Rightarrow> real" where
  "wait_random_exponential mn mx u attempt_number =
     (let high = wait_exponential mn mx attempt_number in mn + (high - mn) * u)"

definition sleep :: "real \<Rightarrow> world \<Rightarrow> world" where
  "sleep d w = w\<lparr>slept := slept w @ [d]\<rparr>"

function Retrying_call ::
  "env \<Rightarrow> nat \<Rightarrow> (world \<Rightarrow> (exn + pyval) \<times> world) \<Rightarrow> world \<Rightarrow> (exn + pyval) \<times> world" where
  "Retrying_call ev attempt_number fn w =
     (case fn w of
        (Inr result, w') \<Rightarrow> (Inr result, w')
      | (Inl e, w') \<Rightarrow>
          if stop_after_attempt 5 attempt_number then (Inl (RetryError (future_id ev) e), w')
          else Retrying_call ev (attempt_number + 1) fn
                 (sleep (wait_random_exponential 1 5 (rand ev attempt_number) attempt_number) w'))"
  by pat_completeness auto
termination
  by (relation "measure (\<lambda>(ev, attempt_number, fn, w). 5 - attempt_number)")
     (auto simp: stop_after_attempt_def)

declare Retrying_call.simps [simp del]

text \<open>The decorated method: attempts are numbered from 1.\<close>

definition generate ::
  "env \<Rightarrow> engine \<Rightarrow> string \<Rightarrow> string option \<Rightarrow> (string \<rightharpoonup> pyval) \<Rightarrow> world \<Rightarrow>
   (exn + pyval) \<times> world" where
  "generate ev self prompt system_prompt_arg kwargs w =
     Retrying_call ev 1 (generate_body ev self prompt system_prompt_arg kwargs) w"


subsection \<open>Answers of the transport, classified\<close>

text \<open>
  The exception that leaves the \<^verbatim>\<open>try\<close> block for an answer of the transport
  (\<open>None\<close> when the block runs to its \<^verbatim>\<open>return\<close>), and the two kinds of failing
  answers: a transport error or an error status (a \<^verbatim>\<open>RequestException\<close> from
  \<^verbatim>\<open>requests.post\<close> or from \<^verbatim>\<open>raise_for_status\<close>), and a response that passes the
  status check with a JSON body on which line 103 fails.
\<close>

definition attempt_error :: "post_result \<Rightarrow> exn option" where
  "attempt_error res =
     (case res of
        PostRaises e \<Rightarrow> Some e
      | PostReturns r \<Rightarrow>
          (case raise_for_status r of
             Some e \<Rightarrow> Some e
           | None \<Rightarrow>
               (case json_body r of
                  Inl m \<Rightarrow> Some (RequestException m None)
                | Inr result \<Rightarrow>
                    (case generated_text_of result of Inl e \<Rightarrow> Some e | Inr _ \<Rightarrow> None))))"

definition transport_fails :: "post_result \<Rightarrow> bool" where
  "transport_fails res =
     (case res of
        PostRaises e \<Rightarrow> (case e of RequestException _ _ \<Rightarrow> True | _ \<Rightarrow> False)
      | PostReturns r \<Rightarrow> \<not> ok r)"

definition malformed :: "post_result \<Rightarrow> bool" where
  "malformed res =
     (case res of
        PostRaises _ \<Rightarrow> False
      | PostReturns r \<Rightarrow>
          ok r \<and> (case json_body r of Inl _ \<Rightarrow> False | Inr result \<Rightarrow> isl (generated_text_of result)))"

text \<open>The request that an attempt of \<^verbatim>\<open>generate\<close> sends, and the cache key it uses.\<close>

definition request_of ::
  "engine \<Rightarrow> string \<Rightarrow> string option \<Rightarrow> (string \<rightharpoonup> pyval) \<Rightarrow> request" where
  "request_of self prompt system_prompt_arg kwargs =
     post_request self
       (payload_of self (or_else system_prompt_arg (system_prompt self)) prompt kwargs)"

definition cache_key_of :: "engine \<Rightarrow> string \<Rightarrow> string option \<Rightarrow> string" where
  "cache_key_of self prompt system_prompt_arg =
     or_else system_prompt_arg (system_prompt self) @ prompt"

subsection \<open>Example collaborators\<close>

definition example_world :: world where
  "example_world = \<lparr>cache = Map.empty, cache_opens = [], sent = [], slept = []\<rparr>"

definition response_500 :: response where
  "response_500 =
     \<lparr>status_code = 500, reason = ''Internal Server Error'',
      resp_url = ''https://openrouter.ai/api/v1/chat/completions'',
      resp_text = ''upstream-detail'', json_body = Inl ''Expecting value''\<rparr>"

definition response_4 :: response where
  "response_4 =
     \<lparr>status_code = 200, reason = ''OK'',
      resp_url = ''https://openrouter.ai/api/v1/chat/completions'',
      resp_text = ''{\"choices\":[{\"message\":{\"content\":\"4\"}}]}'',
      json_body =
        Inr (PDict [(''choices'', PList [PDict [(''message'', PDict [(''content'', PStr ''4'')])]])])\<rparr>"

definition response_empty_object :: response where
  "response_empty_object =
     \<lparr>status_code = 200, reason = ''OK'',
      resp_url = ''https://openrouter.ai/api/v1/chat/completions'',
      resp_text = ''{}'', json_body = Inr (PDict [])\<rparr>"

definition example_env :: "(nat \<Rightarrow> request \<Rightarrow> post_result) \<Rightarrow> env" where
  "example_env t =
     \<lparr>environ = Map.empty, user_cache_dir = (\<lambda>appname. ''/home/u/.cache/'' @ appname),
      transport = t, rand = (\<lambda>k. 1 / 2), future_id = 255\<rparr>"

definition always_500 :: "nat \<Rightarrow> request \<Rightarrow> post_result" where
  "always_500 i req = PostReturns response_500"

definition always_empty_object :: "nat \<Rightarrow> request \<Rightarrow> post_result" where
  "always_empty_object i req = PostReturns response_empty_object"

definition fails_twice :: "nat \<Rightarrow> request \<Rightarrow> post_result" where
  "fails_twice i req =
     (if i < 2 then PostRaises (RequestException ''Connection aborted.'' None)
      else PostReturns response_4)"

definition example_engine :: engine where
  "example_engine =
     \<lparr>cache_path = ''/home/u/.cache/textgrad/cache_deepseek_deepseek_deepseek-chat-v3-0324:free.db'',
      model_string = DEFAULT_MODEL_STRING,
      system_prompt = DEFAULT_SYSTEM_PROMPT,
      api_key = ''sk-test'',
      base_url = ''https://openrouter.ai/api/v1'',
      headers = [''Authorization'' \<mapsto> ''Bearer sk-test'',
                 ''Content-Type'' \<mapsto> ''application/json'',
                 ''HTTP-Referer'' \<mapsto> ''https://example.com'',
                 ''X-Title'' \<mapsto> ''TextGrad App''],
      default_params = [''temperature'' \<mapsto> PFloat 0.7,
                        ''max_tokens'' \<mapsto> PInt 1024,
                        ''top_p'' \<mapsto> PFloat 1.0]\<rparr>"

definition cached_world :: world where
  "cached_world = example_world\<lparr>cache := [DEFAULT_SYSTEM_PROMPT @ ''2+2='' \<mapsto> PStr ''4'']\<rparr>"

definition always_4 :: "nat \<Rightarrow> request \<Rightarrow> post_result" where
  "always_4 i req = PostReturns response_4"

text \<open>The waits of the retry loop after the attempts \<open>n, \<dots>, n + N - 1\<close>.\<close>

definition waits :: "env \<Rightarrow> nat \<Rightarrow> nat \<Rightarrow> real list" where
  "waits ev n N = map (\<lambda>k. wait_random_exponential 1 5 (rand ev k) k) [n..<n + N]"

section \<open>One attempt\<close>

text \<open>
  What one run of the body of \<^verbatim>\<open>generate\<close> returns and how it changes the world: a hit
  returns the cached value and changes nothing; a miss sends one request, and either
  raises with the cache as it was or stores the generated text and returns it.
\<close>

lemma check_cache_sent [simp]: "check_cache (w\<lparr>sent := x\<rparr>) key = check_cache w key"
  by (simp add: check_cache_def)

lemma check_cache_sleep [simp]: "check_cache (sleep d w) key = check_cache w key"
  by (simp add: check_cache_def sleep_def)

lemma try_block_error:
  "attempt_error (transport ev (length (sent w)) (post_request self payload)) = Some e \<Longrightarrow>
   try_block ev self key payload w = (Inl e, w\<lparr>sent := sent w @ [post_request self payload]\<rparr>)"
  by (auto simp: try_block_def attempt_error_def Let_def
           split: post_result.splits option.splits sum.splits)

lemma try_block_ok:
  "transport ev (length (sent w)) (post_request self payload) = PostReturns r \<Longrightarrow>
   raise_for_status r = None \<Longrightarrow> json_body r = Inr result \<Longrightarrow>
   generated_text_of result = Inr v \<Longrightarrow>
   try_block ev self key payload w =
     (Inr v, save_cache key v (w\<lparr>sent := sent w @ [post_request self payload]\<rparr>))"
  by (simp add: try_block_def Let_def)

lemma attempt_error_None:
  "attempt_error res = None \<Longrightarrow>
   \<exists>r result v. res = PostReturns r \<and> raise_for_status r = None \<and>
     json_body r = Inr result \<and> generated_text_of result = Inr v"
  by (cases res) (auto simp: attempt_error_def split: option.splits sum.splits)

lemma try_block_cases:
  assumes "try_block ev self key payload w = (r, w')"
  shows "((\<exists>e. r = Inl e) \<and> w' = w\<lparr>sent := sent w @ [post_request self payload]\<rparr>) \<or>
   (\<exists>v. r = Inr v \<and> w' = save_cache key v (w\<lparr>sent := sent w @ [post_request self payload]\<rparr>))"
proof (cases "attempt_error (transport ev (length (sent w)) (post_request self payload))")
  case None
  from attempt_error_None [OF None] obtain r0 result v where
    "transport ev (length (sent w)) (post_request self payload) = PostReturns r0"
    "raise_for_status r0 = None" "json_body r0 = Inr result" "generated_text_of result = Inr v"
    by blast
  from try_block_ok [OF this, of key] assms show ?thesis by auto
next
  case (Some e)
  from try_block_error [OF Some, of key] assms show ?thesis by auto
qed

lemma generate_body_hit:
  "check_cache w (cache_key_of self prompt sp) \<noteq> PNone \<Longrightarrow>
   generate_body ev self prompt sp kwargs w = (Inr (check_cache w (cache_key_of self prompt sp)), w)"
  by (simp add: generate_body_def cache_key_of_def Let_def)

lemma generate_body_error:
  "check_cache w (cache_key_of self prompt sp) = PNone \<Longrightarrow>
   attempt_error (transport ev (length (sent w)) (request_of self prompt sp kwargs)) = Some e \<Longrightarrow>
   generate_body ev self prompt sp kwargs w =
     (Inl (except_clause e), w\<lparr>sent := sent w @ [request_of self prompt sp kwargs]\<rparr>)"
  by (simp add: generate_body_def cache_key_of_def request_of_def Let_def try_block_error)

lemma generate_body_ok:
  "check_cache w (cache_key_of self prompt sp) = PNone \<Longrightarrow>
   transport ev (length (sent w)) (request_of self prompt sp kwargs) = PostReturns r \<Longrightarrow>
   raise_for_status r = None \<Longrightarrow> json_body r = Inr result \<Longrightarrow>
   generated_text_of result = Inr v \<Longrightarrow>
   generate_body ev self prompt sp kwargs w =
     (Inr v, save_cache (cache_key_of self prompt sp) v
               (w\<lparr>sent := sent w @ [request_of self prompt sp kwargs]\<rparr>))"
  by (simp add: generate_body_def cache_key_of_def request_of_def Let_def try_block_ok)

lemma generate_body_cases:
  assumes "generate_body ev self prompt sp kwargs w = (r, w')"
  shows "(check_cache w (cache_key_of self prompt sp) \<noteq> PNone \<and> (\<exists>v. r = Inr v) \<and> w' = w) \<or>
         (check_cache w (cache_key_of self prompt sp) = PNone \<and> (\<exists>e. r = Inl e) \<and>
          w' = w\<lparr>sent := sent w @ [request_of self prompt sp kwargs]\<rparr>) \<or>
         (check_cache w (cache_key_of self prompt sp) = PNone \<and>
          (\<exists>v. r = Inr v \<and>
               w' = save_cache (cache_key_of self prompt sp) v
                      (w\<lparr>sent := sent w @ [request_of self prompt sp kwargs]\<rparr>)))"
proof (cases "check_cache w (cache_key_of self prompt sp) = PNone")
  case False
  with assms generate_body_hit [OF False, of ev kwargs] show ?thesis by auto
next
  case True
  obtain r0 w0 where tb: "try_block ev self (cache_key_of self prompt sp)
      (payload_of self (or_else sp (system_prompt self)) prompt kwargs) w = (r0, w0)"
    by (cases "try_block ev self (cache_key_of self prompt sp)
      (payload_of self (or_else sp (system_prompt self)) prompt kwargs) w") auto
  from try_block_cases [OF tb] assms True tb show ?thesis
    by (auto simp: generate_body_def cache_key_of_def request_of_def Let_def)
qed

lemma check_cache_None: "cache w key = None \<Longrightarrow> check_cache w key = PNone"
  by (simp add: check_cache_def)

lemma generated_text_of_content:
  "map_of obj ''choices'' = Some (PList (PDict choice # choices)) \<Longrightarrow>
   map_of choice ''message'' = Some (PDict message) \<Longrightarrow>
   map_of message ''content'' = Some v \<Longrightarrow>
   generated_text_of (PDict obj) = Inr v"
  by (simp add: generated_text_of_def)

section \<open>The retry loop\<close>

lemma Retrying_call_Inr:
  "fn w = (Inr v, w') \<Longrightarrow> Retrying_call ev n fn w = (Inr v, w')"
  by (simp add: Retrying_call.simps)

lemma Retrying_call_stop:
  "fn w = (Inl e, w') \<Longrightarrow> 5 \<le> n \<Longrightarrow>
   Retrying_call ev n fn w = (Inl (RetryError (future_id ev) e), w')"
  by (simp add: Retrying_call.simps stop_after_attempt_def)

lemma Retrying_call_again:
  "fn w = (Inl e, w') \<Longrightarrow> n < 5 \<Longrightarrow>
   Retrying_call ev n fn w =
     Retrying_call ev (Suc n) fn
       (sleep (wait_random_exponential 1 5 (rand ev n) n) w')"
  by (subst Retrying_call.simps) (simp add: stop_after_attempt_def)

lemma Retrying_generate_frame:
  "Retrying_call evr n (generate_body ev self prompt sp kwargs) w = (r, w') \<Longrightarrow>
   (\<exists>k. k \<le> Suc (5 - n) \<and> sent w' = sent w @ replicate k (request_of self prompt sp kwargs)) \<and>
   cache_opens w' = cache_opens w \<and>
   (cache w' = cache w \<or>
    (\<exists>v. r = Inr v \<and> check_cache w (cache_key_of self prompt sp) = PNone \<and>
         cache w' = (cache w)(cache_key_of self prompt sp \<mapsto> v)))"
proof (induction evr n "generate_body ev self prompt sp kwargs" w arbitrary: r w'
       rule: Retrying_call.induct)
  case (1 evr n w)
  obtain r1 w1 where body: "generate_body ev self prompt sp kwargs w = (r1, w1)"
    by (cases "generate_body ev self prompt sp kwargs w") auto
  note cases = generate_body_cases [OF body]
  show ?case
  proof (cases r1)
    case (Inr v)
    with body "1.prems" have "r = Inr v" "w' = w1"
      by (simp_all add: Retrying_call_Inr)
    with cases Inr show ?thesis
      by (auto simp: save_cache_def intro: exI [of _ 0] exI [of _ 1])
  next
    case (Inl e)
    with cases have w1: "w1 = w\<lparr>sent := sent w @ [request_of self prompt sp kwargs]\<rparr>"
      and miss: "check_cache w (cache_key_of self prompt sp) = PNone"
      by auto
    show ?thesis
    proof (cases "5 \<le> n")
      case True
      with body Inl "1.prems" have "w' = w1"
        by (simp add: Retrying_call_stop)
      with w1 show ?thesis
        by (auto intro: exI [of _ 1])
    next
      case False
      let ?w2 = "sleep (wait_random_exponential 1 5 (rand evr n) n) w1"
      from False body Inl "1.prems"
      have rec: "Retrying_call evr (n + 1) (generate_body ev self prompt sp kwargs) ?w2 = (r, w')"
        by (simp add: Retrying_call_again)
      have "\<not> stop_after_attempt 5 n"
        using False by (simp add: stop_after_attempt_def)
      from "1.hyps" [OF body [symmetric] Inl this rec]
      obtain k where k: "k \<le> Suc (5 - (n + 1))"
        "sent w' = sent ?w2 @ replicate k (request_of self prompt sp kwargs)"
        and opens: "cache_opens w' = cache_opens ?w2"
        and c: "cache w' = cache ?w2 \<or>
           (\<exists>v. r = Inr v \<and> check_cache ?w2 (cache_key_of self prompt sp) = PNone \<and>
              cache w' = (cache ?w2)(cache_key_of self prompt sp \<mapsto> v))"
        by blast
      from k w1 have "sent w' = sent w @ replicate (Suc k) (request_of self prompt sp kwargs)"
        by (simp add: sleep_def)
      moreover from k False have "Suc k \<le> Suc (5 - n)" by simp
      moreover from opens w1 have "cache_opens w' = cache_opens w" by (simp add: sleep_def)
      moreover from c w1 miss have "cache w' = cache w \<or>
        (\<exists>v. r = Inr v \<and> check_cache w (cache_key_of self prompt sp) = PNone \<and>
           cache w' = (cache w)(cache_key_of self prompt sp \<mapsto> v))"
        by (auto simp: sleep_def)
      ultimately show ?thesis by blast
    qed
  qed
qed

lemma Retrying_generate_skip:
  "n + N \<le> 5 \<Longrightarrow> check_cache w (cache_key_of self prompt sp) = PNone \<Longrightarrow>
   (\<forall>i<N. attempt_error (transport ev (length (sent w) + i) (request_of self prompt sp kwargs)) \<noteq> None) \<Longrightarrow>
   Retrying_call evr n (generate_body ev self prompt sp kwargs) w =
     Retrying_call evr (n + N) (generate_body ev self prompt sp kwargs)
       (w\<lparr>sent := sent w @ replicate N (request_of self prompt sp kwargs),
          slept := slept w @ waits evr n N\<rparr>)"
proof (induction N arbitrary: n w)
  case 0
  then show ?case by (simp add: waits_def)
next
  case (Suc N)
  let ?req = "request_of self prompt sp kwargs"
  from Suc.prems(3) obtain e where
    e: "attempt_error (transport ev (length (sent w)) ?req) = Some e"
    by fastforce
  let ?w1 = "w\<lparr>sent := sent w @ [?req]\<rparr>"
  let ?w2 = "sleep (wait_random_exponential 1 5 (rand evr n) n) ?w1"
  from Suc.prems(1) have n: "n < 5" by simp
  have step: "Retrying_call evr n (generate_body ev self prompt sp kwargs) w =
      Retrying_call evr (Suc n) (generate_body ev self prompt sp kwargs) ?w2"
    using generate_body_error [OF Suc.prems(2) e] n by (simp add: Retrying_call_again)
  have "Suc n + N \<le> 5" using Suc.prems(1) by simp
  moreover have "check_cache ?w2 (cache_key_of self prompt sp) = PNone"
    using Suc.prems(2) by simp
  moreover have "\<forall>i<N. attempt_error (transport ev (length (sent ?w2) + i) ?req) \<noteq> None"
    using Suc.prems(3) by (auto simp: sleep_def)
  ultimately have "Retrying_call evr (Suc n) (generate_body ev self prompt sp kwargs) ?w2 =
     Retrying_call evr (Suc n + N) (generate_body ev self prompt sp kwargs)
       (?w2\<lparr>sent := sent ?w2 @ replicate N ?req, slept := slept ?w2 @ waits evr (Suc n) N\<rparr>)"
    by (rule Suc.IH)
  moreover have "?w2\<lparr>sent := sent ?w2 @ replicate N ?req, slept := slept ?w2 @ waits evr (Suc n) N\<rparr> =
     w\<lparr>sent := sent w @ replicate (Suc N) ?req, slept := slept w @ waits evr n (Suc N)\<rparr>"
    by (simp add: sleep_def waits_def upt_conv_Cons replicate_append_same [symmetric] del: upt_Suc)
  ultimately show ?case using step by simp
qed

lemma wait_random_exponential_bounds:
  assumes "0 \<le> u" "u \<le> 1"
  shows "1 \<le> wait_random_exponential 1 5 u k \<and> wait_random_exponential 1 5 u k \<le> 5"
proof -
  let ?high = "wait_exponential 1 5 k"
  have h: "1 \<le> ?high" "?high \<le> 5"
    by (simp_all add: wait_exponential_def)
  have "0 \<le> (?high - 1) * u" using h assms by simp
  moreover have "(?high - 1) * u \<le> (?high - 1) * 1"
    using h assms by (intro mult_left_mono) simp_all
  ultimately show ?thesis using h
    by (simp add: wait_random_exponential_def Let_def)
qed

lemma generate_sent_miss:
  assumes miss: "check_cache w (cache_key_of self prompt sp) = PNone"
    and gen: "generate ev self prompt sp kwargs w = (r, w')"
  shows "\<exists>k. 1 \<le> k \<and> k \<le> 5 \<and> sent w' = sent w @ replicate k (request_of self prompt sp kwargs)"
proof -
  let ?req = "request_of self prompt sp kwargs"
  let ?w1 = "w\<lparr>sent := sent w @ [?req]\<rparr>"
  obtain r1 w1 where body: "generate_body ev self prompt sp kwargs w = (r1, w1)"
    by (cases "generate_body ev self prompt sp kwargs w") auto
  show ?thesis
  proof (cases r1)
    case (Inr v)
    with body gen have "w' = w1" by (simp add: generate_def Retrying_call_Inr)
    with generate_body_cases [OF body] miss have "sent w' = sent w @ replicate 1 ?req"
      by (auto simp: save_cache_def)
    then show ?thesis by (intro exI [of _ 1]) simp
  next
    case (Inl e)
    with generate_body_cases [OF body] miss have w1: "w1 = ?w1" by auto
    let ?w2 = "sleep (wait_random_exponential 1 5 (rand ev 1) 1) w1"
    from body Inl gen have "Retrying_call ev (Suc 1) (generate_body ev self prompt sp kwargs) ?w2 = (r, w')"
      by (simp add: generate_def Retrying_call_again)
    from Retrying_generate_frame [OF this] obtain k where
      "k \<le> Suc (5 - Suc 1)" "sent w' = sent ?w2 @ replicate k ?req"
      by blast
    with w1 have "Suc k \<le> 5" "sent w' = sent w @ replicate (Suc k) ?req"
      by (simp_all add: sleep_def)
    then show ?thesis by (intro exI [of _ "Suc k"]) simp
  qed
qed


lemma Retrying_generate_exhausted:
  assumes miss: "check_cache w (cache_key_of self prompt sp) = PNone"
    and fails: "\<forall>i<5. attempt_error (transport ev (length (sent w) + i)
                  (request_of self prompt sp kwargs)) \<noteq> None"
    and last: "attempt_error (transport ev (length (sent w) + 4)
                  (request_of self prompt sp kwargs)) = Some e"
  shows "generate ev self prompt sp kwargs w =
     (Inl (RetryError (future_id ev) (except_clause e)),
      w\<lparr>sent := sent w @ replicate 5 (request_of self prompt sp kwargs),
        slept := slept w @ waits ev 1 4\<rparr>)"
proof -
  let ?req = "request_of self prompt sp kwargs"
  let ?w4 = "w\<lparr>sent := sent w @ replicate 4 ?req, slept := slept w @ waits ev 1 4\<rparr>"
  from fails have "\<forall>i<4. attempt_error (transport ev (length (sent w) + i) ?req) \<noteq> None"
    by simp
  with miss have "Retrying_call ev 1 (generate_body ev self prompt sp kwargs) w =
      Retrying_call ev (1 + 4) (generate_body ev self prompt sp kwargs) ?w4"
    by (intro Retrying_generate_skip) simp_all
  moreover have "check_cache ?w4 (cache_key_of self prompt sp) = PNone"
    using miss by (simp add: check_cache_def)
  moreover have "attempt_error (transport ev (length (sent ?w4)) ?req) = Some e"
    using last by simp
  ultimately have "generate ev self prompt sp kwargs w =
      (Inl (RetryError (future_id ev) (except_clause e)), ?w4\<lparr>sent := sent ?w4 @ [?req]\<rparr>)"
    using generate_body_error [of ?w4 self prompt sp ev kwargs e]
    by (simp add: generate_def Retrying_call_stop)
  moreover have "replicate 5 ?req = replicate 4 ?req @ [?req]"
    by (simp add: eval_nat_numeral replicate_append_same)
  ultimately show ?thesis by simp
qed

section \<open>Failing answers\<close>

lemma transport_fails_attempt_error:
  "transport_fails res \<Longrightarrow> \<exists>m resp. attempt_error res = Some (RequestException m resp)"
  by (cases res)
     (auto simp: transport_fails_def attempt_error_def ok_def raise_for_status_def
           split: exn.splits option.splits if_splits)


lemma getitem_str_error:
  "getitem_str v k = Inl e \<Longrightarrow> (\<exists>x. e = KeyError x) \<or> e = TypeError"
  by (cases v) (auto split: option.splits)

lemma getitem_0_error:
  "getitem_0 v = Inl e \<Longrightarrow> (\<exists>x. e = KeyError x) \<or> e = IndexError \<or> e = TypeError"
  by (cases v rule: getitem_0.cases) auto

lemma generated_text_of_error:
  assumes "generated_text_of result = Inl e"
  shows "(\<exists>x. e = KeyError x) \<or> e = IndexError \<or> e = TypeError"
  using assms getitem_str_error getitem_0_error
  by (fastforce simp: generated_text_of_def split: sum.splits)

lemma malformed_attempt_error:
  assumes "malformed res"
  shows "\<exists>e. attempt_error res = Some e \<and> except_clause e = e \<and>
           ((\<exists>x. e = KeyError x) \<or> e = IndexError \<or> e = TypeError)"
proof -
  from assms obtain r result e where
    "res = PostReturns r" "raise_for_status r = None" "json_body r = Inr result"
    "generated_text_of result = Inl e"
    by (cases res) (auto simp: malformed_def ok_def isl_def split: sum.splits)
  moreover from generated_text_of_error [OF this(4)]
  have "(\<exists>x. e = KeyError x) \<or> e = IndexError \<or> e = TypeError" .
  ultimately show ?thesis
    by (auto simp: attempt_error_def except_clause_def)
qed

section \<open>The constructor\<close>

lemma init_Inr:
  assumes "init ev model_string_arg system_prompt_arg api_key_arg site_url site_name kwargs w =
           (Inr self, w')"
  shows "or_opt api_key_arg (environ ev ''OPENROUTER_API_KEY'') = Some (api_key self)"
    and "api_key self \<noteq> []"
    and "model_string self = (case model_string_arg of None \<Rightarrow> DEFAULT_MODEL_STRING | Some m \<Rightarrow> m)"
    and "system_prompt self = (case system_prompt_arg of None \<Rightarrow> DEFAULT_SYSTEM_PROMPT | Some s \<Rightarrow> s)"
    and "base_url self = ''https://openrouter.ai/api/v1''"
    and "headers self = [''Authorization'' \<mapsto> ''Bearer '' @ api_key self,
                         ''Content-Type'' \<mapsto> ''application/json'',
                         ''HTTP-Referer'' \<mapsto> or_else site_url ''https://example.com'',
                         ''X-Title'' \<mapsto> or_else site_name ''TextGrad App'']"
    and "default_params self =
           [''temperature'' \<mapsto> dict_get kwargs ''temperature'' (PFloat 0.7),
            ''max_tokens'' \<mapsto> dict_get kwargs ''max_tokens'' (PInt 1024),
            ''top_p'' \<mapsto> dict_get kwargs ''top_p'' (PFloat 1.0)]"
  using assms
  by (auto simp: init_def Let_def split: option.splits if_splits)

lemma init_example:
  "init (example_env always_4) None None (Some ''sk-test'') None None Map.empty example_world =
     (Inr example_engine, example_world\<lparr>cache_opens :=
        [''/home/u/.cache/textgrad/cache_deepseek_deepseek_deepseek-chat-v3-0324:free.db'']\<rparr>)"
  by (simp add: init_def Let_def example_env_def example_engine_def example_world_def or_opt_def
      or_else_def dict_get_def CachedEngine_init_def path_join_def replace_slash_def
      DEFAULT_MODEL_STRING_def)

section \<open>The claims\<close>

text \<open>
  C1. When the cache key, the effective system prompt followed by the user prompt with
  nothing between them, is in the cache store with a stored text, \<^verbatim>\<open>generate\<close> returns
  that text and leaves the world as it was: no request is sent, no retry sleeps, and the
  cache is not written.
\<close>

theorem generate_cache_hit:
  assumes "cache w (or_else system_prompt_arg (system_prompt self) @ prompt) = Some (PStr cached)"
  shows "generate ev self prompt system_prompt_arg kwargs w = (Inr (PStr cached), w)"
proof -
  from assms have "check_cache w (cache_key_of self prompt system_prompt_arg) = PStr cached"
    by (simp add: check_cache_def cache_key_of_def)
  then have "generate_body ev self prompt system_prompt_arg kwargs w = (Inr (PStr cached), w)"
    using generate_body_hit [of w self prompt system_prompt_arg ev kwargs] by simp
  then show ?thesis
    by (simp add: generate_def Retrying_call_Inr)
qed

theorem generate_cache_hit_witness:
  "cache cached_world (or_else None (system_prompt example_engine) @ ''2+2='') = Some (PStr ''4'') \<and>
   generate (example_env always_500) example_engine ''2+2='' None Map.empty cached_world =
     (Inr (PStr ''4''), cached_world)"
proof -
  have h: "cache cached_world (or_else None (system_prompt example_engine) @ ''2+2='') = Some (PStr ''4'')"
    by (simp add: cached_world_def example_world_def or_else_def example_engine_def)
  from h generate_cache_hit [OF h] show ?thesis by simp
qed

text \<open>
  C2. When the cache key is not in the cache and the transport answers the request with
  a response that passes the status check and whose JSON body holds a string at
  \<^verbatim>\<open>choices[0].message.content\<close>, \<^verbatim>\<open>generate\<close> returns exactly that string after one
  request and stores it under the cache key; a further call with the same prompt and
  system prompt, whatever the transport and the keyword parameters, returns the same
  string and changes nothing, so it sends no request.
\<close>

theorem generate_miss_then_cached:
  assumes miss: "cache w (cache_key_of self prompt system_prompt_arg) = None"
    and post: "transport ev (length (sent w)) (request_of self prompt system_prompt_arg kwargs) =
               PostReturns r"
    and status: "ok r"
    and body: "json_body r = Inr (PDict obj)"
    and choices: "map_of obj ''choices'' = Some (PList (PDict choice # choices))"
    and message: "map_of choice ''message'' = Some (PDict message)"
    and content: "map_of message ''content'' = Some (PStr generated)"
  shows "generate ev self prompt system_prompt_arg kwargs w =
           (Inr (PStr generated),
            w\<lparr>sent := sent w @ [request_of self prompt system_prompt_arg kwargs],
              cache := (cache w)(cache_key_of self prompt system_prompt_arg \<mapsto> PStr generated)\<rparr>) \<and>
         generate ev' self prompt system_prompt_arg kwargs'
           (w\<lparr>sent := sent w @ [request_of self prompt system_prompt_arg kwargs],
              cache := (cache w)(cache_key_of self prompt system_prompt_arg \<mapsto> PStr generated)\<rparr>) =
           (Inr (PStr generated),
            w\<lparr>sent := sent w @ [request_of self prompt system_prompt_arg kwargs],
              cache := (cache w)(cache_key_of self prompt system_prompt_arg \<mapsto> PStr generated)\<rparr>)"
proof -
  let ?key = "cache_key_of self prompt system_prompt_arg"
  let ?w' = "w\<lparr>sent := sent w @ [request_of self prompt system_prompt_arg kwargs],
               cache := (cache w)(?key \<mapsto> PStr generated)\<rparr>"
  from status have rs: "raise_for_status r = None" by (simp add: ok_def)
  have "generate_body ev self prompt system_prompt_arg kwargs w = (Inr (PStr generated), ?w')"
    using generate_body_ok [OF check_cache_None [OF miss] post rs body
        generated_text_of_content [OF choices message content]]
    by (simp add: save_cache_def)
  then have first: "generate ev self prompt system_prompt_arg kwargs w = (Inr (PStr generated), ?w')"
    by (simp add: generate_def Retrying_call_Inr)
  have "check_cache ?w' ?key = PStr generated"
    by (simp add: check_cache_def)
  then have "generate_body ev' self prompt system_prompt_arg kwargs' ?w' = (Inr (PStr generated), ?w')"
    using generate_body_hit [of ?w' self prompt system_prompt_arg ev' kwargs'] by simp
  then have "generate ev' self prompt system_prompt_arg kwargs' ?w' = (Inr (PStr generated), ?w')"
    by (simp add: generate_def Retrying_call_Inr)
  with first show ?thesis by simp
qed

theorem generate_miss_then_cached_witness:
  "cache example_world (cache_key_of example_engine ''2+2='' None) = None \<and>
   transport (example_env always_4) (length (sent example_world))
     (request_of example_engine ''2+2='' None Map.empty) = PostReturns response_4 \<and>
   ok response_4 \<and>
   generate (example_env always_4) example_engine ''2+2='' None Map.empty example_world =
     (Inr (PStr ''4''),
      example_world\<lparr>sent := sent example_world @ [request_of example_engine ''2+2='' None Map.empty],
        cache := (cache example_world)(cache_key_of example_engine ''2+2='' None \<mapsto> PStr ''4'')\<rparr>) \<and>
   generate (example_env always_500) example_engine ''2+2='' None Map.empty
     (example_world\<lparr>sent := sent example_world @ [request_of example_engine ''2+2='' None Map.empty],
        cache := (cache example_world)(cache_key_of example_engine ''2+2='' None \<mapsto> PStr ''4'')\<rparr>) =
     (Inr (PStr ''4''),
      example_world\<lparr>sent := sent example_world @ [request_of example_engine ''2+2='' None Map.empty],
        cache := (cache example_world)(cache_key_of example_engine ''2+2='' None \<mapsto> PStr ''4'')\<rparr>)"
proof -
  have miss: "cache example_world (cache_key_of example_engine ''2+2='' None) = None"
    by (simp add: example_world_def)
  have post: "transport (example_env always_4) (length (sent example_world))
     (request_of example_engine ''2+2='' None Map.empty) = PostReturns response_4"
    by (simp add: example_env_def always_4_def)
  have status: "ok response_4"
    by (simp add: ok_def raise_for_status_def response_4_def)
  have body: "json_body response_4 =
      Inr (PDict [(''choices'', PList [PDict [(''message'', PDict [(''content'', PStr ''4'')])]])])"
    by (simp add: response_4_def)
  have choices: "map_of [(''choices'', PList [PDict [(''message'', PDict [(''content'', PStr ''4'')])]])]
      ''choices'' = Some (PList (PDict [(''message'', PDict [(''content'', PStr ''4'')])] # []))"
    by simp
  have message: "map_of [(''message'', PDict [(''content'', PStr ''4'')])] ''message'' =
      Some (PDict [(''content'', PStr ''4'')])"
    by simp
  have content: "map_of [(''content'', PStr ''4'')] ''content'' = Some (PStr ''4'')"
    by simp
  from generate_miss_then_cached [OF miss post status body choices message content,
      of "example_env always_500" Map.empty] miss post status
  show ?thesis by simp
qed




text \<open>
  C4. Constructing the engine with no credential parameter while the environment
  variable \<^verbatim>\<open>OPENROUTER_API_KEY\<close> is unset raises the configuration error. No request has
  been sent and no cache entry read or written by then, but the base-class constructor
  has already opened or created the cache store at the derived path.
\<close>

theorem init_missing_credential:
  assumes "environ ev ''OPENROUTER_API_KEY'' = None"
  shows "init ev model_string_arg system_prompt_arg None site_url site_name kwargs w =
     (Inl (ValueError (''OpenRouter API key is required. '' @
        ''Please provide api_key parameter or set OPENROUTER_API_KEY environment variable.'')),
      w\<lparr>cache_opens := cache_opens w @
           [path_join (user_cache_dir ev ''textgrad'')
              (''cache_deepseek_'' @
               replace_slash (case model_string_arg of None \<Rightarrow> DEFAULT_MODEL_STRING | Some m \<Rightarrow> m) @
               ''.db'')]\<rparr>)"
  using assms by (simp add: init_def Let_def or_opt_def CachedEngine_init_def)

theorem init_missing_credential_witness:
  "environ (example_env always_4) ''OPENROUTER_API_KEY'' = None \<and>
   init (example_env always_4) None None None None None Map.empty example_world =
     (Inl (ValueError (''OpenRouter API key is required. '' @
        ''Please provide api_key parameter or set OPENROUTER_API_KEY environment variable.'')),
      example_world\<lparr>cache_opens := cache_opens example_world @
           [path_join (user_cache_dir (example_env always_4) ''textgrad'')
              (''cache_deepseek_'' @ replace_slash DEFAULT_MODEL_STRING @ ''.db'')]\<rparr>)"
proof -
  have h: "environ (example_env always_4) ''OPENROUTER_API_KEY'' = None"
    by (simp add: example_env_def)
  from init_missing_credential [OF h, of None None None None Map.empty example_world] h
  show ?thesis by simp
qed

text \<open>
  The configuration error does not come before every access to the cache store: in the
  example the list of opened stores is empty before the constructor runs and holds the
  derived path when the error is raised.
\<close>

theorem init_missing_credential_counterexample:
  "fst (init (example_env always_4) None None None None None Map.empty example_world) =
     Inl (ValueError ''OpenRouter API key is required. Please provide api_key parameter or set OPENROUTER_API_KEY environment variable.'') \<and>
   cache_opens example_world = [] \<and>
   cache_opens (snd (init (example_env always_4) None None None None None Map.empty example_world)) =
     [''/home/u/.cache/textgrad/cache_deepseek_deepseek_deepseek-chat-v3-0324:free.db'']"
  by (simp add: init_def Let_def example_env_def example_world_def or_opt_def
      CachedEngine_init_def path_join_def replace_slash_def DEFAULT_MODEL_STRING_def)

text \<open>
  C5. For \<open>N < 5\<close>, when the cache key is not in the cache, the first \<open>N\<close> answers of
  the transport are transport errors or error statuses and the next answer is a response
  that passes the status check with a string at \<^verbatim>\<open>choices[0].message.content\<close>,
  \<^verbatim>\<open>generate\<close> returns that string, has sent exactly \<open>N + 1\<close> requests and has slept
  \<open>N\<close> times, each time for a duration between 1 and 5 (the random draws being in the
  unit interval).
\<close>

theorem generate_retry_then_success:
  assumes few: "N < 5"
    and miss: "cache w (cache_key_of self prompt system_prompt_arg) = None"
    and fails: "\<forall>i<N. transport_fails (transport ev (length (sent w) + i)
                  (request_of self prompt system_prompt_arg kwargs))"
    and post: "transport ev (length (sent w) + N) (request_of self prompt system_prompt_arg kwargs) =
               PostReturns r"
    and status: "ok r"
    and body: "json_body r = Inr (PDict obj)"
    and choices: "map_of obj ''choices'' = Some (PList (PDict choice # choices))"
    and message: "map_of choice ''message'' = Some (PDict message)"
    and content: "map_of message ''content'' = Some (PStr generated)"
    and draws: "\<forall>k. 0 \<le> rand ev k \<and> rand ev k \<le> 1"
  shows "\<exists>ds. generate ev self prompt system_prompt_arg kwargs w =
           (Inr (PStr generated),
            w\<lparr>sent := sent w @ replicate (N + 1) (request_of self prompt system_prompt_arg kwargs),
              slept := slept w @ ds,
              cache := (cache w)(cache_key_of self prompt system_prompt_arg \<mapsto> PStr generated)\<rparr>) \<and>
         length ds = N \<and> (\<forall>d\<in>set ds. 1 \<le> d \<and> d \<le> 5)"
proof -
  let ?req = "request_of self prompt system_prompt_arg kwargs"
  let ?key = "cache_key_of self prompt system_prompt_arg"
  let ?wN = "w\<lparr>sent := sent w @ replicate N ?req, slept := slept w @ waits ev 1 N\<rparr>"
  from fails have "\<forall>i<N. attempt_error (transport ev (length (sent w) + i) ?req) \<noteq> None"
    using transport_fails_attempt_error by fastforce
  with few miss have "Retrying_call ev 1 (generate_body ev self prompt system_prompt_arg kwargs) w =
      Retrying_call ev (1 + N) (generate_body ev self prompt system_prompt_arg kwargs) ?wN"
    by (intro Retrying_generate_skip) (simp_all add: check_cache_None)
  moreover have "check_cache ?wN ?key = PNone"
    using miss by (simp add: check_cache_def)
  moreover have "transport ev (length (sent ?wN)) ?req = PostReturns r"
    using post by simp
  moreover from status have "raise_for_status r = None" by (simp add: ok_def)
  ultimately have "generate ev self prompt system_prompt_arg kwargs w =
      (Inr (PStr generated), save_cache ?key (PStr generated) (?wN\<lparr>sent := sent ?wN @ [?req]\<rparr>))"
    using generate_body_ok [of ?wN self prompt system_prompt_arg ev kwargs r "PDict obj" "PStr generated"]
      body generated_text_of_content [OF choices message content]
    by (simp add: generate_def Retrying_call_Inr)
  moreover have "replicate (N + 1) ?req = replicate N ?req @ [?req]"
    by (simp add: replicate_append_same)
  ultimately have "generate ev self prompt system_prompt_arg kwargs w =
      (Inr (PStr generated),
       w\<lparr>sent := sent w @ replicate (N + 1) ?req, slept := slept w @ waits ev 1 N,
         cache := (cache w)(?key \<mapsto> PStr generated)\<rparr>)"
    by (simp add: save_cache_def)
  moreover have "length (waits ev 1 N) = N"
    by (simp add: waits_def)
  moreover have "\<forall>d\<in>set (waits ev 1 N). 1 \<le> d \<and> d \<le> 5"
    using draws wait_random_exponential_bounds by (auto simp: waits_def)
  ultimately show ?thesis by blast
qed

theorem generate_retry_then_success_witness:
  "(2::nat) < 5 \<and>
   cache example_world (cache_key_of example_engine ''2+2='' None) = None \<and>
   transport_fails (transport (example_env fails_twice) 0 (request_of example_engine ''2+2='' None Map.empty)) \<and>
   transport_fails (transport (example_env fails_twice) 1 (request_of example_engine ''2+2='' None Map.empty)) \<and>
   transport (example_env fails_twice) 2 (request_of example_engine ''2+2='' None Map.empty) =
     PostReturns response_4 \<and>
   ok response_4 \<and>
   rand (example_env fails_twice) = (\<lambda>k. 1 / 2) \<and>
   fst (generate (example_env fails_twice) example_engine ''2+2='' None Map.empty example_world) =
     Inr (PStr ''4'') \<and>
   length (sent (snd (generate (example_env fails_twice) example_engine ''2+2='' None Map.empty
     example_world))) = 3 \<and>
   length (slept (snd (generate (example_env fails_twice) example_engine ''2+2='' None Map.empty
     example_world))) = 2"
proof -
  let ?req = "request_of example_engine ''2+2='' None Map.empty"
  have few: "(2::nat) < 5" by simp
  have miss: "cache example_world (cache_key_of example_engine ''2+2='' None) = None"
    by (simp add: example_world_def)
  have f: "i < 2 \<Longrightarrow> transport_fails (transport (example_env fails_twice) i ?req)" for i
    by (simp add: transport_fails_def example_env_def fails_twice_def)
  then have fails: "\<forall>i<2. transport_fails (transport (example_env fails_twice)
      (length (sent example_world) + i) ?req)"
    by (simp add: example_world_def)
  have post: "transport (example_env fails_twice) (length (sent example_world) + 2) ?req =
      PostReturns response_4"
    by (simp add: example_env_def fails_twice_def)
  have status: "ok response_4"
    by (simp add: ok_def raise_for_status_def response_4_def)
  have body: "json_body response_4 =
      Inr (PDict [(''choices'', PList [PDict [(''message'', PDict [(''content'', PStr ''4'')])]])])"
    by (simp add: response_4_def)
  have choices: "map_of [(''choices'', PList [PDict [(''message'', PDict [(''content'', PStr ''4'')])]])]
      ''choices'' = Some (PList (PDict [(''message'', PDict [(''content'', PStr ''4'')])] # []))"
    by simp
  have message: "map_of [(''message'', PDict [(''content'', PStr ''4'')])] ''message'' =
      Some (PDict [(''content'', PStr ''4'')])"
    by simp
  have content: "map_of [(''content'', PStr ''4'')] ''content'' = Some (PStr ''4'')"
    by simp
  have r: "rand (example_env fails_twice) = (\<lambda>k. 1 / 2)"
    by (simp add: example_env_def)
  then have draws: "\<forall>k. 0 \<le> rand (example_env fails_twice) k \<and> rand (example_env fails_twice) k \<le> 1"
    by simp
  from generate_retry_then_success [OF few miss fails post status body choices message content draws]
  obtain ds where "generate (example_env fails_twice) example_engine ''2+2='' None Map.empty example_world =
     (Inr (PStr ''4''),
      example_world\<lparr>sent := sent example_world @ replicate (2 + 1) ?req,
        slept := slept example_world @ ds,
        cache := (cache example_world)(cache_key_of example_engine ''2+2='' None \<mapsto> PStr ''4'')\<rparr>)"
    and "length ds = 2"
    by blast
  then have "fst (generate (example_env fails_twice) example_engine ''2+2='' None Map.empty example_world) =
     Inr (PStr ''4'')"
    and "length (sent (snd (generate (example_env fails_twice) example_engine ''2+2='' None Map.empty
     example_world))) = 3"
    and "length (slept (snd (generate (example_env fails_twice) example_engine ''2+2='' None Map.empty
     example_world))) = 2"
    by (simp_all add: example_world_def)
  moreover have "transport (example_env fails_twice) 2 ?req = PostReturns response_4"
    by (simp add: example_env_def fails_twice_def)
  moreover have "transport_fails (transport (example_env fails_twice) 0 ?req)"
    "transport_fails (transport (example_env fails_twice) 1 ?req)"
    by (simp_all add: f)
  ultimately show ?thesis
    using few miss status r by blast
qed

text \<open>
  C6. When the cache key is not in the cache and each of five successive answers of the
  transport passes the status check with a JSON body that lacks the expected keys, the
  \<^verbatim>\<open>KeyError\<close>, \<^verbatim>\<open>IndexError\<close> or \<^verbatim>\<open>TypeError\<close> of line 103 is not converted by the
  \<^verbatim>\<open>except\<close> clause, but the retry decorator treats it as any failed attempt: five
  requests are sent, and the caller receives a \<^verbatim>\<open>RetryError\<close> that wraps the error of the
  fifth attempt. The cache is as it was.
\<close>

theorem generate_malformed_response:
  assumes miss: "cache w (cache_key_of self prompt system_prompt_arg) = None"
    and bad: "\<forall>i<5. malformed (transport ev (length (sent w) + i)
                  (request_of self prompt system_prompt_arg kwargs))"
  shows "\<exists>e w'.
     attempt_error (transport ev (length (sent w) + 4)
       (request_of self prompt system_prompt_arg kwargs)) = Some e \<and>
     ((\<exists>x. e = KeyError x) \<or> e = IndexError \<or> e = TypeError) \<and>
     generate ev self prompt system_prompt_arg kwargs w =
       (Inl (RetryError (future_id ev) e), w') \<and>
     sent w' = sent w @ replicate 5 (request_of self prompt system_prompt_arg kwargs) \<and>
     cache w' = cache w"
proof -
  let ?req = "request_of self prompt system_prompt_arg kwargs"
  from bad have all: "\<forall>i<5. attempt_error (transport ev (length (sent w) + i) ?req) \<noteq> None"
    using malformed_attempt_error by fastforce
  from bad have "malformed (transport ev (length (sent w) + 4) ?req)" by simp
  from malformed_attempt_error [OF this] obtain e where
    last: "attempt_error (transport ev (length (sent w) + 4) ?req) = Some e"
    and same: "except_clause e = e"
    and kind: "(\<exists>x. e = KeyError x) \<or> e = IndexError \<or> e = TypeError"
    by blast
  from Retrying_generate_exhausted [OF check_cache_None [OF miss] all last] same last kind
  show ?thesis by simp
qed

theorem generate_malformed_response_witness:
  "cache example_world (cache_key_of example_engine ''2+2='' None) = None \<and>
   malformed (transport (example_env always_empty_object) 0 (request_of example_engine ''2+2='' None Map.empty)) \<and>
   malformed (transport (example_env always_empty_object) 1 (request_of example_engine ''2+2='' None Map.empty)) \<and>
   malformed (transport (example_env always_empty_object) 2 (request_of example_engine ''2+2='' None Map.empty)) \<and>
   malformed (transport (example_env always_empty_object) 3 (request_of example_engine ''2+2='' None Map.empty)) \<and>
   malformed (transport (example_env always_empty_object) 4 (request_of example_engine ''2+2='' None Map.empty)) \<and>
   class_name (projl (fst (generate (example_env always_empty_object) example_engine ''2+2='' None
     Map.empty example_world))) = ''RetryError'' \<and>
   length (sent (snd (generate (example_env always_empty_object) example_engine ''2+2='' None
     Map.empty example_world))) = 5"
proof -
  have miss: "cache example_world (cache_key_of example_engine ''2+2='' None) = None"
    by (simp add: example_world_def)
  have f: "malformed (transport (example_env always_empty_object) i req)" for i req
    by (simp add: malformed_def example_env_def always_empty_object_def ok_def
        raise_for_status_def response_empty_object_def generated_text_of_def)
  then have bad: "\<forall>i<5. malformed (transport (example_env always_empty_object)
      (length (sent example_world) + i) (request_of example_engine ''2+2='' None Map.empty))"
    by simp
  from generate_malformed_response [OF miss bad] miss f show ?thesis
    by (auto simp: example_world_def)
qed

text \<open>
  With a transport that always answers status 200 and the body \<^verbatim>\<open>{}\<close>, one run of the
  body raises \<^verbatim>\<open>KeyError('choices')\<close>, but \<^verbatim>\<open>generate\<close> sends five requests and what
  reaches the caller is a \<^verbatim>\<open>RetryError\<close>, not the \<^verbatim>\<open>KeyError\<close>.
\<close>

theorem generate_malformed_response_counterexample:
  "generate_body (example_env always_empty_object) example_engine ''2+2='' None Map.empty example_world =
     (Inl (KeyError (PStr ''choices'')),
      example_world\<lparr>sent := [request_of example_engine ''2+2='' None Map.empty]\<rparr>) \<and>
   fst (generate (example_env always_empty_object) example_engine ''2+2='' None Map.empty example_world) =
     Inl (RetryError 255 (KeyError (PStr ''choices''))) \<and>
   length (sent (snd (generate (example_env always_empty_object) example_engine ''2+2='' None Map.empty
     example_world))) = 5"
proof -
  have "attempt_error (transport (example_env always_empty_object) (length (sent example_world))
      (request_of example_engine ''2+2='' None Map.empty)) = Some (KeyError (PStr ''choices''))"
    by (simp add: attempt_error_def example_env_def always_empty_object_def
        raise_for_status_def response_empty_object_def generated_text_of_def)
  from generate_body_error [OF _ this]
  have "generate_body (example_env always_empty_object) example_engine ''2+2='' None Map.empty
      example_world =
     (Inl (KeyError (PStr ''choices'')),
      example_world\<lparr>sent := [request_of example_engine ''2+2='' None Map.empty]\<rparr>)"
    by (simp add: check_cache_def example_world_def except_clause_def)
  moreover have "fst (generate (example_env always_empty_object) example_engine ''2+2='' None
      Map.empty example_world) = Inl (RetryError 255 (KeyError (PStr ''choices'')))"
    by code_simp
  moreover have "length (sent (snd (generate (example_env always_empty_object) example_engine
      ''2+2='' None Map.empty example_world))) = 5"
    by code_simp
  ultimately show ?thesis by simp
qed



text \<open>
  C8. For an engine that the constructor has built, a call of \<^verbatim>\<open>generate\<close> that misses
  the cache sends between one and five equal requests, and the payload maps every key as
  follows: a key among the extra keyword parameters of the call has the value passed
  there; otherwise \<^verbatim>\<open>temperature\<close>, \<^verbatim>\<open>max_tokens\<close> and \<^verbatim>\<open>top_p\<close> have the
  instance defaults, \<^verbatim>\<open>model\<close> has the model identifier, \<^verbatim>\<open>messages\<close> has the two
  messages in order (system with the effective system prompt, then user with the
  prompt), and no other key is present.
\<close>

theorem generate_payload:
  assumes init: "init ev0 model_string_arg system_prompt_arg0 api_key_arg site_url site_name
                   init_kwargs w0 = (Inr self, w1)"
    and miss: "cache w (cache_key_of self prompt system_prompt_arg) = None"
    and gen: "generate ev self prompt system_prompt_arg kwargs w = (r, w')"
  shows "\<exists>k req. 1 \<le> k \<and> k \<le> 5 \<and> sent w' = sent w @ replicate k req \<and>
     (\<forall>key. req_json req key =
        (case kwargs key of
           Some v \<Rightarrow> Some v
         | None \<Rightarrow>
             if key = ''temperature'' then Some (dict_get init_kwargs ''temperature'' (PFloat 0.7))
             else if key = ''max_tokens'' then Some (dict_get init_kwargs ''max_tokens'' (PInt 1024))
             else if key = ''top_p'' then Some (dict_get init_kwargs ''top_p'' (PFloat 1.0))
             else if key = ''model'' then Some (PStr (model_string self))
             else if key = ''messages'' then
               Some (PList
                 [PDict [(''role'', PStr ''system''),
                         (''content'', PStr (or_else system_prompt_arg (system_prompt self)))],
                  PDict [(''role'', PStr ''user''), (''content'', PStr prompt)]])
             else None))"
proof -
  let ?req = "request_of self prompt system_prompt_arg kwargs"
  from generate_sent_miss [OF check_cache_None [OF miss] gen] obtain k where
    k: "1 \<le> k" "k \<le> 5" "sent w' = sent w @ replicate k ?req"
    by blast
  note e = init_Inr [OF init]
  have "req_json ?req key =
        (case kwargs key of
           Some v \<Rightarrow> Some v
         | None \<Rightarrow>
             if key = ''temperature'' then Some (dict_get init_kwargs ''temperature'' (PFloat 0.7))
             else if key = ''max_tokens'' then Some (dict_get init_kwargs ''max_tokens'' (PInt 1024))
             else if key = ''top_p'' then Some (dict_get init_kwargs ''top_p'' (PFloat 1.0))
             else if key = ''model'' then Some (PStr (model_string self))
             else if key = ''messages'' then
               Some (PList
                 [PDict [(''role'', PStr ''system''),
                         (''content'', PStr (or_else system_prompt_arg (system_prompt self)))],
                  PDict [(''role'', PStr ''user''), (''content'', PStr prompt)]])
             else None)" for key
    by (simp add: request_of_def post_request_def payload_of_def e(7) map_add_def
        split: option.splits)
  with k show ?thesis by blast
qed

theorem generate_payload_witness:
  "init (example_env always_4) None None (Some ''sk-test'') None None Map.empty example_world =
     (Inr example_engine, example_world\<lparr>cache_opens :=
        [''/home/u/.cache/textgrad/cache_deepseek_deepseek_deepseek-chat-v3-0324:free.db'']\<rparr>) \<and>
   cache example_world (cache_key_of example_engine ''2+2='' None) = None \<and>
   (\<exists>k req. 1 \<le> k \<and> k \<le> 5 \<and>
      sent (snd (generate (example_env always_4) example_engine ''2+2='' None
        [''temperature'' \<mapsto> PFloat 0.2] example_world)) = replicate k req \<and>
      req_json req ''temperature'' = Some (PFloat 0.2) \<and>
      req_json req ''max_tokens'' = Some (PInt 1024) \<and>
      req_json req ''top_p'' = Some (PFloat 1.0) \<and>
      req_json req ''model'' = Some (PStr ''deepseek/deepseek-chat-v3-0324:free'') \<and>
      req_json req ''messages'' =
        Some (PList
          [PDict [(''role'', PStr ''system''),
                  (''content'', PStr ''You are a helpful, creative, and smart assistant.'')],
           PDict [(''role'', PStr ''user''), (''content'', PStr ''2+2='')]]) \<and>
      req_json req ''stream'' = None)"
proof -
  have miss: "cache example_world (cache_key_of example_engine ''2+2='' None) = None"
    by (simp add: example_world_def)
  have gen: "generate (example_env always_4) example_engine ''2+2='' None
      [''temperature'' \<mapsto> PFloat 0.2] example_world =
     (fst (generate (example_env always_4) example_engine ''2+2='' None
        [''temperature'' \<mapsto> PFloat 0.2] example_world),
      snd (generate (example_env always_4) example_engine ''2+2='' None
        [''temperature'' \<mapsto> PFloat 0.2] example_world))"
    by simp
  from generate_payload [OF init_example miss gen] obtain k req where
    k: "1 \<le> k" "k \<le> 5"
      "sent (snd (generate (example_env always_4) example_engine ''2+2='' None
        [''temperature'' \<mapsto> PFloat 0.2] example_world)) = sent example_world @ replicate k req"
    and json: "\<And>key. req_json req key =
        (case [''temperature'' \<mapsto> PFloat 0.2] key of
           Some v \<Rightarrow> Some v
         | None \<Rightarrow>
             if key = ''temperature'' then Some (dict_get Map.empty ''temperature'' (PFloat 0.7))
             else if key = ''max_tokens'' then Some (dict_get Map.empty ''max_tokens'' (PInt 1024))
             else if key = ''top_p'' then Some (dict_get Map.empty ''top_p'' (PFloat 1.0))
             else if key = ''model'' then Some (PStr (model_string example_engine))
             else if key = ''messages'' then
               Some (PList
                 [PDict [(''role'', PStr ''system''),
                         (''content'', PStr (or_else None (system_prompt example_engine)))],
                  PDict [(''role'', PStr ''user''), (''content'', PStr ''2+2='')]])
             else None)"
    by blast
  have "sent (snd (generate (example_env always_4) example_engine ''2+2='' None
        [''temperature'' \<mapsto> PFloat 0.2] example_world)) = replicate k req"
    using k(3) by (simp add: example_world_def)
  moreover have "req_json req ''temperature'' = Some (PFloat 0.2)"
    "req_json req ''max_tokens'' = Some (PInt 1024)"
    "req_json req ''top_p'' = Some (PFloat 1.0)"
    "req_json req ''model'' = Some (PStr ''deepseek/deepseek-chat-v3-0324:free'')"
    "req_json req ''messages'' =
        Some (PList
          [PDict [(''role'', PStr ''system''),
                  (''content'', PStr ''You are a helpful, creative, and smart assistant.'')],
           PDict [(''role'', PStr ''user''), (''content'', PStr ''2+2='')]])"
    "req_json req ''stream'' = None"
    by (simp_all add: json dict_get_def or_else_def example_engine_def DEFAULT_MODEL_STRING_def
        DEFAULT_SYSTEM_PROMPT_def)
  ultimately show ?thesis
    using init_example miss k(1,2) by blast
qed

text \<open>
  The payload does not always hold the model identifier: with the extra keyword
  parameter \<^verbatim>\<open>model="other"\<close> the one request sent has \<^verbatim>\<open>other\<close> under \<^verbatim>\<open>model\<close>, not
  the model identifier of the engine.
\<close>

theorem generate_payload_counterexample:
  "cache example_world (cache_key_of example_engine ''2+2='' None) = None \<and>
   sent (snd (generate (example_env always_4) example_engine ''2+2='' None
     [''model'' \<mapsto> PStr ''other''] example_world)) =
     [request_of example_engine ''2+2='' None [''model'' \<mapsto> PStr ''other'']] \<and>
   req_json (request_of example_engine ''2+2='' None [''model'' \<mapsto> PStr ''other'']) ''model'' =
     Some (PStr ''other'') \<and>
   model_string example_engine = ''deepseek/deepseek-chat-v3-0324:free''"
proof -
  have miss: "cache example_world (cache_key_of example_engine ''2+2='' None) = None"
    by (simp add: example_world_def)
  have post: "transport (example_env always_4) (length (sent example_world))
     (request_of example_engine ''2+2='' None [''model'' \<mapsto> PStr ''other'']) = PostReturns response_4"
    by (simp add: example_env_def always_4_def)
  have "generated_text_of
      (PDict [(''choices'', PList [PDict [(''message'', PDict [(''content'', PStr ''4'')])]])]) =
      Inr (PStr ''4'')"
    by (simp add: generated_text_of_def)
  from generate_body_ok [OF check_cache_None [OF miss] post _ _ this]
  have "generate_body (example_env always_4) example_engine ''2+2='' None
      [''model'' \<mapsto> PStr ''other''] example_world =
     (Inr (PStr ''4''), save_cache (cache_key_of example_engine ''2+2='' None) (PStr ''4'')
        (example_world\<lparr>sent := sent example_world @
           [request_of example_engine ''2+2='' None [''model'' \<mapsto> PStr ''other'']]\<rparr>))"
    by (simp add: raise_for_status_def response_4_def)
  then have "sent (snd (generate (example_env always_4) example_engine ''2+2='' None
     [''model'' \<mapsto> PStr ''other''] example_world)) =
     [request_of example_engine ''2+2='' None [''model'' \<mapsto> PStr ''other'']]"
    by (simp add: generate_def Retrying_call_Inr save_cache_def example_world_def)
  moreover have "req_json (request_of example_engine ''2+2='' None [''model'' \<mapsto> PStr ''other''])
      ''model'' = Some (PStr ''other'')"
    by (simp add: request_of_def post_request_def payload_of_def)
  moreover have "model_string example_engine = ''deepseek/deepseek-chat-v3-0324:free''"
    by (simp add: example_engine_def DEFAULT_MODEL_STRING_def)
  ultimately show ?thesis using miss by blast
qed

text \<open>
  C9. A call with the system prompt explicitly set to the empty string is the call with
  no system prompt: the instance default is the system prompt of the cache key and of
  the request.
\<close>

theorem generate_empty_system_prompt:
  "generate ev self prompt (Some []) kwargs w = generate ev self prompt None kwargs w \<and>
   cache_key_of self prompt (Some []) = system_prompt self @ prompt \<and>
   request_of self prompt (Some []) kwargs =
     post_request self (payload_of self (system_prompt self) prompt kwargs)"
proof -
  have "generate_body ev self prompt (Some []) kwargs = generate_body ev self prompt None kwargs"
    by (rule ext) (simp add: generate_body_def or_else_def)
  then show ?thesis
    by (simp add: generate_def cache_key_of_def request_of_def or_else_def)
qed

text \<open>
  C10. A call that fails, whatever the failure, and a call that hits the cache leave the
  cache contents as they were: only a miss that ends in a returned text writes the cache.
\<close>

theorem generate_cache_unchanged:
  assumes "generate ev self prompt system_prompt_arg kwargs w = (r, w')"
    and "isl r \<or> check_cache w (cache_key_of self prompt system_prompt_arg) \<noteq> PNone"
  shows "cache w' = cache w"
  using Retrying_generate_frame [OF assms(1) [unfolded generate_def]] assms(2)
  by auto

theorem generate_cache_unchanged_witness:
  "isl (fst (generate (example_env always_500) example_engine ''2+2='' None Map.empty example_world)) \<and>
   cache (snd (generate (example_env always_500) example_engine ''2+2='' None Map.empty example_world)) =
     cache example_world"
proof -
  have fails: "isl (fst (generate (example_env always_500) example_engine ''2+2='' None Map.empty
      example_world))"
    by code_simp
  have "generate (example_env always_500) example_engine ''2+2='' None Map.empty example_world =
     (fst (generate (example_env always_500) example_engine ''2+2='' None Map.empty example_world),
      snd (generate (example_env always_500) example_engine ''2+2='' None Map.empty example_world))"
    by simp
  from generate_cache_unchanged [OF this] fails show ?thesis by blast
qed

end
